theory Spec2Isabelle
  imports Main "HOL-Library.Multiset"
begin

section \<open>Data model (backend/src/types/index.ts)\<close>

text \<open>
  The enum \<^verbatim>\<open>SubmissionStatus\<close> and the interface \<^verbatim>\<open>Submission\<close>.
  Optional fields are options. The two timestamp fields hold ISO-8601 strings produced by
  \<^verbatim>\<open>Date.prototype.toISOString\<close>; such a string and the millisecond count that
  \<^verbatim>\<open>new Date(s).getTime()\<close> reads back from it determine each other, so a timestamp is
  represented by that millisecond count. A \<open>char\<close> stands for a UTF-16 code unit below 256.
\<close>

datatype SubmissionStatus = Pending | Approved | Rejected

type_synonym timestamp = int

record Submission =
  id' :: string
  title :: string
  content :: string
  imageReference :: "string option"
  embeddedImages :: "string list option"
  writerEmail :: "string option"
  status :: SubmissionStatus
  createdAt :: timestamp
  updatedAt :: timestamp

text \<open>Every failure of the two modules is \<^verbatim>\<open>throw new Error(message)\<close>.\<close>

datatype error = Error string

section \<open>Record store (backend/src/modules/storage/storage.ts)\<close>

text \<open>
  The state of the store is the content of the data file: \<open>Some xs\<close> when the file parses
  to the JSON array \<open>xs\<close>, \<open>None\<close> when it cannot be read, cannot be parsed or does not hold
  an array. A method returns its outcome together with the file as it leaves it.
\<close>

type_synonym dataFile = "Submission list option"

definition readData :: "dataFile \<Rightarrow> Submission list" where
  "readData f = (case f of None \<Rightarrow> [] | Some parsed \<Rightarrow> parsed)"

text \<open>
  \<^verbatim>\<open>writeData\<close> rethrows whatever \<^verbatim>\<open>fs.writeFileSync\<close> throws. What that call does
  is decided by the environment. It opens the file truncating it, writes the text and
  closes the file, so a call that throws leaves one of three things behind: the file as it
  was (the open was refused), a file that holds a proper prefix of the new text, which is
  never a JSON array (the write broke off), or the complete new text (the close failed).
\<close>

datatype writeOutcome = Written | FailedUntouched | FailedTruncated | FailedAfterWrite

definition writeData ::
  "writeOutcome \<Rightarrow> Submission list \<Rightarrow> dataFile \<Rightarrow> (error + unit) \<times> dataFile" where
  "writeData wr data f =
     (case wr of
        Written \<Rightarrow> (Inr (), Some data)
      | FailedUntouched \<Rightarrow> (Inl (Error ''Failed to save submission to file''), f)
      | FailedTruncated \<Rightarrow> (Inl (Error ''Failed to save submission to file''), None)
      | FailedAfterWrite \<Rightarrow> (Inl (Error ''Failed to save submission to file''), Some data))"

definition saveSubmission :: "writeOutcome \<Rightarrow> Submission \<Rightarrow> dataFile \<Rightarrow> (error + unit) \<times> dataFile" where
  "saveSubmission wr submission f = writeData wr (readData f @ [submission]) f"

text \<open>\<^verbatim>\<open>Array.prototype.findIndex\<close>; \<open>None\<close> is the source's \<^verbatim>\<open>-1\<close>.\<close>

fun findIndex :: "('a \<Rightarrow> bool) \<Rightarrow> 'a list \<Rightarrow> nat option" where
  "findIndex P [] = None"
| "findIndex P (x # xs) = (if P x then Some 0 else map_option Suc (findIndex P xs))"

definition updateSubmission :: "writeOutcome \<Rightarrow> Submission \<Rightarrow> dataFile \<Rightarrow> (error + unit) \<times> dataFile" where
  "updateSubmission wr submission f =
     (let submissions = readData f in
      case findIndex (\<lambda>s. id' s = id' submission) submissions of
        None \<Rightarrow> (Inl (Error (''Submission with ID '' @ id' submission @ '' not found'')), f)
      | Some index \<Rightarrow> writeData wr (submissions[index := submission]) f)"

text \<open>\<^verbatim>\<open>Array.prototype.find\<close> is \<^const>\<open>List.find\<close>; \<open>None\<close> is the source's \<^verbatim>\<open>null\<close>.\<close>

definition getSubmission :: "dataFile \<Rightarrow> string \<Rightarrow> Submission option" where
  "getSubmission f sid = List.find (\<lambda>s. id' s = sid) (readData f)"

text \<open>
  The comparator handed to \<^verbatim>\<open>Array.prototype.sort\<close>, and the sort itself: ECMAScript
  requires it to be stable, and \<open>x\<close> goes before \<open>y\<close> unless the comparator is positive.
\<close>

definition compareCreatedAt :: "Submission \<Rightarrow> Submission \<Rightarrow> int" where
  "compareCreatedAt a b = createdAt b - createdAt a"

fun insertBy :: "('a \<Rightarrow> 'a \<Rightarrow> int) \<Rightarrow> 'a \<Rightarrow> 'a list \<Rightarrow> 'a list" where
  "insertBy cmp x [] = [x]"
| "insertBy cmp x (y # ys) = (if cmp x y \<le> 0 then x # y # ys else y # insertBy cmp x ys)"

definition sortBy :: "('a \<Rightarrow> 'a \<Rightarrow> int) \<Rightarrow> 'a list \<Rightarrow> 'a list" where
  "sortBy cmp xs = foldr (insertBy cmp) xs []"

definition getAllSubmissions :: "dataFile \<Rightarrow> Submission list" where
  "getAllSubmissions f = sortBy compareCreatedAt (readData f)"

definition deleteSubmission :: "writeOutcome \<Rightarrow> string \<Rightarrow> dataFile \<Rightarrow> (error + bool) \<times> dataFile" where
  "deleteSubmission wr sid f =
     (let submissions = readData f;
          initialLength = length submissions;
          filtered = filter (\<lambda>s. id' s \<noteq> sid) submissions
      in if length filtered < initialLength
         then (case writeData wr filtered f of
                 (Inl e, f') \<Rightarrow> (Inl e, f')
               | (Inr _, f') \<Rightarrow> (Inr True, f'))
         else (Inr False, f))"

definition getSubmissionsByStatus :: "dataFile \<Rightarrow> SubmissionStatus \<Rightarrow> Submission list" where
  "getSubmissionsByStatus f st =
     sortBy compareCreatedAt (filter (\<lambda>s. status s = st) (readData f))"

record counts =
  pending :: nat
  approved :: nat
  rejected :: nat
  total' :: nat

definition getSubmissionCounts :: "dataFile \<Rightarrow> counts" where
  "getSubmissionCounts f =
     (let submissions = readData f in
      \<lparr> pending = length (filter (\<lambda>s. status s = Pending) submissions),
        approved = length (filter (\<lambda>s. status s = Approved) submissions),
        rejected = length (filter (\<lambda>s. status s = Rejected) submissions),
        total' = length submissions \<rparr>)"

section \<open>Workflow engine (backend/src/modules/workflow/workflow.ts)\<close>

text \<open>
  \<^verbatim>\<open>String.prototype.trim\<close> strips white space and line terminators from both ends. Of
  the code units below 256 these are TAB, LF, VT, FF, CR, SP and NBSP.
\<close>

definition isWhiteSpace :: "char \<Rightarrow> bool" where
  "isWhiteSpace c = (of_char c \<in> set [9, 10, 11, 12, 13, 32, 160 :: nat])"

definition trim :: "string \<Rightarrow> string" where
  "trim s = rev (dropWhile isWhiteSpace (rev (dropWhile isWhiteSpace s)))"

text \<open>\<^verbatim>\<open>Number.prototype.toString\<close> on an integer: its decimal digits, with a sign.\<close>

definition digitChar :: "nat \<Rightarrow> char" where
  "digitChar d = char_of (48 + d)"

function digits :: "nat \<Rightarrow> string" where
  "digits n = (if n < 10 then [digitChar n] else digits (n div 10) @ [digitChar (n mod 10)])"
  by pat_completeness auto
termination
  by (relation "measure (\<lambda>n. n)") auto

declare digits.simps [simp del]

definition toString :: "int \<Rightarrow> string" where
  "toString i = (if i < 0 then CHR ''-'' # digits (nat (- i)) else digits (nat i))"

text \<open>
  \<open>createSubmission\<close> reads the clock twice: \<open>dateNow\<close> is the value of
  \<^verbatim>\<open>Date.now()\<close> that becomes the id, \<open>now\<close> the instant of \<^verbatim>\<open>new Date()\<close> that
  becomes both timestamps. \<open>wr\<close> is what the store's write does.
\<close>

definition createSubmission ::
  "int \<Rightarrow> timestamp \<Rightarrow> writeOutcome \<Rightarrow> string \<Rightarrow> string \<Rightarrow> string option \<Rightarrow> string list option \<Rightarrow>
   string option \<Rightarrow> dataFile \<Rightarrow> (error + Submission) \<times> dataFile" where
  "createSubmission dateNow now wr title0 content0 imageReference0 embeddedImages0 writerEmail0 f =
     (if title0 = [] \<or> trim title0 = []
      then (Inl (Error ''Title is required and cannot be empty''), f)
      else if content0 = [] \<or> trim content0 = []
      then (Inl (Error ''Content is required and cannot be empty''), f)
      else
        let submission =
              \<lparr> id' = toString dateNow,
                title = trim title0,
                content = trim content0,
                imageReference = imageReference0,
                embeddedImages = embeddedImages0,
                writerEmail = writerEmail0,
                status = Pending,
                createdAt = now,
                updatedAt = now \<rparr>
        in (case saveSubmission wr submission f of
              (Inl e, f') \<Rightarrow> (Inl e, f')
            | (Inr _, f') \<Rightarrow> (Inr submission, f')))"

definition validateStatusTransition :: "SubmissionStatus \<Rightarrow> SubmissionStatus \<Rightarrow> error + unit" where
  "validateStatusTransition currentStatus newStatus =
     (if currentStatus = newStatus then Inr () else Inr ())"

definition updateSubmissionStatus ::
  "timestamp \<Rightarrow> writeOutcome \<Rightarrow> string \<Rightarrow> SubmissionStatus \<Rightarrow> dataFile \<Rightarrow> (error + Submission) \<times> dataFile" where
  "updateSubmissionStatus now wr submissionId newStatus f =
     (case getSubmission f submissionId of
        None \<Rightarrow> (Inl (Error (''Submission with ID '' @ submissionId @ '' not found'')), f)
      | Some submission \<Rightarrow>
          (case validateStatusTransition (status submission) newStatus of
             Inl e \<Rightarrow> (Inl e, f)
           | Inr _ \<Rightarrow>
               (let updatedSubmission = submission\<lparr>status := newStatus, updatedAt := now\<rparr>
                in (case updateSubmission wr updatedSubmission f of
                      (Inl e, f') \<Rightarrow> (Inl e, f')
                    | (Inr _, f') \<Rightarrow> (Inr updatedSubmission, f')))))"

definition approveSubmission ::
  "timestamp \<Rightarrow> writeOutcome \<Rightarrow> string \<Rightarrow> dataFile \<Rightarrow> (error + Submission) \<times> dataFile" where
  "approveSubmission now wr submissionId f = updateSubmissionStatus now wr submissionId Approved f"

definition rejectSubmission ::
  "timestamp \<Rightarrow> writeOutcome \<Rightarrow> string \<Rightarrow> dataFile \<Rightarrow> (error + Submission) \<times> dataFile" where
  "rejectSubmission now wr submissionId f = updateSubmissionStatus now wr submissionId Rejected f"

text \<open>The workflow's \<^verbatim>\<open>deleteSubmission\<close> hands over to the store's.\<close>

definition wf_deleteSubmission :: "writeOutcome \<Rightarrow> string \<Rightarrow> dataFile \<Rightarrow> (error + bool) \<times> dataFile" where
  "wf_deleteSubmission wr submissionId f = deleteSubmission wr submissionId f"

section \<open>Runs of the core operations\<close>

text \<open>
  A call of one of the five mutating operations of the workflow engine, with what the
  environment supplies to it: the clock readings and what the write does.
\<close>

datatype operation =
    CreateSubmission int timestamp writeOutcome string string "string option" "string list option"
      "string option"
  | UpdateSubmissionStatus timestamp writeOutcome string SubmissionStatus
  | ApproveSubmission timestamp writeOutcome string
  | RejectSubmission timestamp writeOutcome string
  | DeleteSubmission writeOutcome string

fun perform :: "operation \<Rightarrow> dataFile \<Rightarrow> dataFile" where
  "perform (CreateSubmission dateNow now wr t c i e w) f =
     snd (createSubmission dateNow now wr t c i e w f)"
| "perform (UpdateSubmissionStatus now wr sid st) f = snd (updateSubmissionStatus now wr sid st f)"
| "perform (ApproveSubmission now wr sid) f = snd (approveSubmission now wr sid f)"
| "perform (RejectSubmission now wr sid) f = snd (rejectSubmission now wr sid f)"
| "perform (DeleteSubmission wr sid) f = snd (wf_deleteSubmission wr sid f)"

definition run :: "operation list \<Rightarrow> dataFile \<Rightarrow> dataFile" where
  "run ops f = fold perform ops f"

text \<open>The instants that the calls of a run write into timestamp fields, in call order.\<close>

fun clockReadings :: "operation list \<Rightarrow> timestamp list" where
  "clockReadings [] = []"
| "clockReadings (CreateSubmission dateNow now wr t c i e w # ops) = now # clockReadings ops"
| "clockReadings (UpdateSubmissionStatus now wr sid st # ops) = now # clockReadings ops"
| "clockReadings (ApproveSubmission now wr sid # ops) = now # clockReadings ops"
| "clockReadings (RejectSubmission now wr sid # ops) = now # clockReadings ops"
| "clockReadings (DeleteSubmission wr sid # ops) = clockReadings ops"

section \<open>Sample records\<close>

definition sampleSubmission :: "string \<Rightarrow> SubmissionStatus \<Rightarrow> timestamp \<Rightarrow> timestamp \<Rightarrow> Submission" where
  "sampleSubmission sid st created updated =
     \<lparr> id' = sid, title = ''Test'', content = ''Content'', imageReference = None,
       embeddedImages = None, writerEmail = None, status = st,
       createdAt = created, updatedAt = updated \<rparr>"

section \<open>The sort of the store\<close>

lemma insertBy_insort_key:
  "insertBy compareCreatedAt x ys = insort_key (\<lambda>s. - createdAt s) x ys"
  by (induction ys) (auto simp: compareCreatedAt_def)

lemma sortBy_sort_key: "sortBy compareCreatedAt xs = sort_key (\<lambda>s. - createdAt s) xs"
  by (induction xs) (simp_all add: sortBy_def insertBy_insort_key)

lemma sorted_desc_createdAt:
  "sorted_wrt (\<lambda>a b. createdAt b \<le> createdAt a) (sortBy compareCreatedAt xs)"
proof -
  have "sorted (map (\<lambda>s. - createdAt s) (sort_key (\<lambda>s. - createdAt s) xs))"
    by (rule sorted_sort_key)
  then show ?thesis
    by (simp add: sortBy_sort_key sorted_map)
qed

lemma mset_sortBy: "mset (sortBy compareCreatedAt xs) = mset xs"
  by (simp add: sortBy_sort_key)

lemma length_sortBy: "length (sortBy compareCreatedAt xs) = length xs"
  by (simp add: sortBy_sort_key)

lemma filter_sortBy:
  "filter P (sortBy compareCreatedAt xs) = sortBy compareCreatedAt (filter P xs)"
  by (simp add: sortBy_sort_key filter_sort)

lemma count_sortBy:
  "length (filter P (sortBy compareCreatedAt xs)) = length (filter P xs)"
  by (simp add: filter_sortBy length_sortBy)

lemma status_partition:
  "length (filter (\<lambda>s. status s = Pending) xs) + length (filter (\<lambda>s. status s = Approved) xs)
   + length (filter (\<lambda>s. status s = Rejected) xs) = length xs"
proof (induction xs)
  case Nil
  then show ?case by simp
next
  case (Cons x xs)
  then show ?case by (cases "status x") simp_all
qed

section \<open>Queries\<close>

text \<open>
  Claim C7. Whatever the data file holds, \<open>getAllSubmissions\<close> returns every record of
  the store (as a multiset, nothing lost and nothing added), newest \<open>createdAt\<close> first, and
  \<open>getSubmissionsByStatus st\<close> returns exactly the records of that list whose status is
  \<open>st\<close>, in the order they have there.
\<close>

theorem getAllSubmissions_newest_first:
  "mset (getAllSubmissions f) = mset (readData f)
   \<and> sorted_wrt (\<lambda>a b. createdAt b \<le> createdAt a) (getAllSubmissions f)
   \<and> getSubmissionsByStatus f st = filter (\<lambda>s. status s = st) (getAllSubmissions f)"
  by (simp add: getAllSubmissions_def getSubmissionsByStatus_def mset_sortBy
      sorted_desc_createdAt filter_sortBy)

text \<open>
  Claim C8. Whatever the data file holds, the four numbers of \<open>getSubmissionCounts\<close> are
  the numbers of pending, approved and rejected records in the list that
  \<open>getAllSubmissions\<close> returns on the same file and the length of that list, and the
  first three add up to the fourth.
\<close>

theorem getSubmissionCounts_match_getAll:
  "pending (getSubmissionCounts f)
     = length (filter (\<lambda>s. status s = Pending) (getAllSubmissions f))
   \<and> approved (getSubmissionCounts f)
     = length (filter (\<lambda>s. status s = Approved) (getAllSubmissions f))
   \<and> rejected (getSubmissionCounts f)
     = length (filter (\<lambda>s. status s = Rejected) (getAllSubmissions f))
   \<and> total' (getSubmissionCounts f) = length (getAllSubmissions f)
   \<and> pending (getSubmissionCounts f) + approved (getSubmissionCounts f)
       + rejected (getSubmissionCounts f) = total' (getSubmissionCounts f)"
  by (simp add: getSubmissionCounts_def getAllSubmissions_def count_sortBy length_sortBy
      status_partition Let_def)

section \<open>Looking records up and replacing them\<close>

lemma readData_Some [simp]: "readData (Some xs) = xs"
  by (simp add: readData_def)

lemma readData_None [simp]: "readData None = []"
  by (simp add: readData_def)

lemma findIndex_Some:
  "List.find P xs = Some x \<Longrightarrow> \<exists>i. findIndex P xs = Some i \<and> i < length xs \<and> xs ! i = x"
  by (induction xs) (auto split: if_splits)

lemma find_list_update:
  "findIndex P xs = Some i \<Longrightarrow> P y \<Longrightarrow> List.find P (xs[i := y]) = Some y"
proof (induction xs arbitrary: i)
  case Nil
  then show ?case by simp
next
  case (Cons x xs)
  then show ?case by (cases "P x") auto
qed

lemma find_Some_sat: "List.find P xs = Some x \<Longrightarrow> P x \<and> x \<in> set xs"
  by (induction xs) (auto split: if_splits)

lemma find_append_first: "List.find P xs = Some x \<Longrightarrow> List.find P (xs @ ys) = Some x"
  by (induction xs) (auto split: if_splits)

lemma getSubmission_id: "getSubmission f sid = Some sub \<Longrightarrow> id' sub = sid"
  unfolding getSubmission_def by (drule find_Some_sat) simp

lemma getSubmission_mem: "getSubmission f sid = Some sub \<Longrightarrow> sub \<in> set (readData f)"
  unfolding getSubmission_def by (drule find_Some_sat) simp

lemma getSubmission_None:
  "(getSubmission f sid = None) = (\<forall>s\<in>set (readData f). id' s \<noteq> sid)"
  by (auto simp: getSubmission_def find_None_iff)

lemma updateSubmission_at:
  "findIndex (\<lambda>s. id' s = id' submission) (readData f) = Some i \<Longrightarrow>
   updateSubmission Written submission f = (Inr (), Some ((readData f)[i := submission]))"
  by (simp add: updateSubmission_def writeData_def Let_def)

lemma updateSubmissionStatus_at:
  assumes "getSubmission f sid = Some sub"
    and "findIndex (\<lambda>s. id' s = sid) (readData f) = Some i"
  shows "updateSubmissionStatus now Written sid st f
           = (Inr (sub\<lparr>status := st, updatedAt := now\<rparr>),
              Some ((readData f)[i := sub\<lparr>status := st, updatedAt := now\<rparr>]))"
proof -
  have "id' (sub\<lparr>status := st, updatedAt := now\<rparr>) = sid"
    using getSubmission_id [OF assms(1)] by simp
  with assms(2)
  have "updateSubmission Written (sub\<lparr>status := st, updatedAt := now\<rparr>) f
          = (Inr (), Some ((readData f)[i := sub\<lparr>status := st, updatedAt := now\<rparr>]))"
    by (intro updateSubmission_at) simp
  then show ?thesis
    by (simp add: updateSubmissionStatus_def assms(1) validateStatusTransition_def Let_def)
qed

lemma updateSubmissionStatus_persisted:
  assumes "getSubmission f sid = Some sub"
  shows "fst (updateSubmissionStatus now Written sid st f)
           = Inr (sub\<lparr>status := st, updatedAt := now\<rparr>)
       \<and> getSubmission (snd (updateSubmissionStatus now Written sid st f)) sid
           = Some (sub\<lparr>status := st, updatedAt := now\<rparr>)"
proof -
  from assms have "List.find (\<lambda>s. id' s = sid) (readData f) = Some sub"
    by (simp add: getSubmission_def)
  from findIndex_Some [OF this]
  obtain i where i: "findIndex (\<lambda>s. id' s = sid) (readData f) = Some i"
    by auto
  have u: "updateSubmissionStatus now Written sid st f
             = (Inr (sub\<lparr>status := st, updatedAt := now\<rparr>),
                Some ((readData f)[i := sub\<lparr>status := st, updatedAt := now\<rparr>]))"
    using assms i by (rule updateSubmissionStatus_at)
  have "id' (sub\<lparr>status := st, updatedAt := now\<rparr>) = sid"
    using getSubmission_id [OF assms] by simp
  with i have "List.find (\<lambda>s. id' s = sid)
                 ((readData f)[i := sub\<lparr>status := st, updatedAt := now\<rparr>])
               = Some (sub\<lparr>status := st, updatedAt := now\<rparr>)"
    by (intro find_list_update) simp_all
  then show ?thesis by (simp add: u getSubmission_def)
qed

lemma updateSubmissionStatus_missing:
  "getSubmission f sid = None \<Longrightarrow>
   updateSubmissionStatus now wr sid st f
     = (Inl (Error (''Submission with ID '' @ sid @ '' not found'')), f)"
  by (simp add: updateSubmissionStatus_def)

section \<open>Concrete strings\<close>

lemma trim_Nil [simp]: "trim [] = []"
  by (simp add: trim_def)

lemma trim_blank: "trim ''   '' = []"
  by (simp add: trim_def isWhiteSpace_def)

lemma trim_t: "trim ''t'' = ''t''"
  by (simp add: trim_def isWhiteSpace_def)

lemma trim_Title: "trim ''  Title  '' = ''Title''"
  by (simp add: trim_def isWhiteSpace_def)

lemma trim_Body: "trim ''  Body  '' = ''Body''"
  by (simp add: trim_def isWhiteSpace_def)

lemma trim_Test: "trim ''Test'' = ''Test''"
  by (simp add: trim_def isWhiteSpace_def)

lemma trim_Content: "trim ''Content'' = ''Content''"
  by (simp add: trim_def isWhiteSpace_def)

lemma toString_1000: "toString 1000 = ''1000''"
  by code_simp

lemma toString_2000: "toString 2000 = ''2000''"
  by code_simp

section \<open>Status transitions\<close>

text \<open>
  Claim C1, as the code has it. For every stored submission whose current status equals
  the requested one, \<open>updateSubmissionStatus\<close> succeeds when the write goes through, and
  the record it returns and persists is the stored one with nothing but \<open>updatedAt\<close>
  replaced: \<open>updatedAt\<close> becomes the instant of the call. \<open>validateStatusTransition\<close>
  returns without effect on either branch, and the timestamp is written unconditionally,
  so a repeated transition does refresh it.
\<close>

theorem updateSubmissionStatus_same_status:
  assumes "getSubmission f sid = Some sub" and "status sub = st"
  shows "fst (updateSubmissionStatus now Written sid st f) = Inr (sub\<lparr>updatedAt := now\<rparr>)
       \<and> getSubmission (snd (updateSubmissionStatus now Written sid st f)) sid
           = Some (sub\<lparr>updatedAt := now\<rparr>)"
proof -
  have "sub\<lparr>status := st, updatedAt := now\<rparr> = sub\<lparr>updatedAt := now\<rparr>"
    using assms(2) by simp
  with updateSubmissionStatus_persisted [OF assms(1), of now st] show ?thesis by simp
qed

text \<open>
  An approved submission last updated at instant 1000 is approved again at instant 2000:
  the call succeeds, and the returned and persisted record carries 2000, not 1000.
\<close>

theorem updateSubmissionStatus_same_status_counterexample:
  "getSubmission (Some [sampleSubmission ''1'' Approved 1000 1000]) ''1''
     = Some (sampleSubmission ''1'' Approved 1000 1000)
   \<and> status (sampleSubmission ''1'' Approved 1000 1000) = Approved
   \<and> updateSubmissionStatus 2000 Written ''1'' Approved
        (Some [sampleSubmission ''1'' Approved 1000 1000])
     = (Inr (sampleSubmission ''1'' Approved 1000 2000),
        Some [sampleSubmission ''1'' Approved 1000 2000])
   \<and> updatedAt (sampleSubmission ''1'' Approved 1000 2000)
     \<noteq> updatedAt (sampleSubmission ''1'' Approved 1000 1000)"
  by (simp add: getSubmission_def sampleSubmission_def updateSubmissionStatus_def
      validateStatusTransition_def updateSubmission_def writeData_def Let_def)

theorem updateSubmissionStatus_same_status_witness:
  "fst (updateSubmissionStatus 2000 Written ''1'' Approved
          (Some [sampleSubmission ''1'' Approved 1000 1000]))
     = Inr (sampleSubmission ''1'' Approved 1000 2000)
   \<and> getSubmission (snd (updateSubmissionStatus 2000 Written ''1'' Approved
         (Some [sampleSubmission ''1'' Approved 1000 1000]))) ''1''
     = Some (sampleSubmission ''1'' Approved 1000 2000)"
proof -
  have g: "getSubmission (Some [sampleSubmission ''1'' Approved 1000 1000]) ''1''
             = Some (sampleSubmission ''1'' Approved 1000 1000)"
    by (simp add: getSubmission_def sampleSubmission_def)
  have s: "status (sampleSubmission ''1'' Approved 1000 1000) = Approved"
    by (simp add: sampleSubmission_def)
  have e: "(sampleSubmission ''1'' Approved 1000 1000)\<lparr>updatedAt := 2000\<rparr>
             = sampleSubmission ''1'' Approved 1000 2000"
    by (simp add: sampleSubmission_def)
  from updateSubmissionStatus_same_status [OF g s, of 2000] show ?thesis
    by (simp only: e)
qed

text \<open>
  Claim C2, at the input where the code departs from it. \<open>updatedAt\<close> is overwritten
  with the reading of a millisecond clock and nothing makes it advance. A submission is
  created at instant 1000 and approved within the same millisecond: both calls succeed, the
  status becomes \<open>Approved\<close>, and \<open>updatedAt\<close> of the returned and persisted record is
  1000 as before the call, not later.
\<close>

theorem updateSubmissionStatus_same_millisecond_same_updatedAt:
  "createSubmission 1000 1000 Written ''Test'' ''Content'' None None None (Some [])
     = (Inr (sampleSubmission ''1000'' Pending 1000 1000),
        Some [sampleSubmission ''1000'' Pending 1000 1000])
   \<and> updateSubmissionStatus 1000 Written ''1000'' Approved
        (Some [sampleSubmission ''1000'' Pending 1000 1000])
     = (Inr (sampleSubmission ''1000'' Approved 1000 1000),
        Some [sampleSubmission ''1000'' Approved 1000 1000])
   \<and> updatedAt (sampleSubmission ''1000'' Approved 1000 1000)
     = updatedAt (sampleSubmission ''1000'' Pending 1000 1000)"
  by (simp add: createSubmission_def saveSubmission_def trim_Test trim_Content toString_1000
      getSubmission_def sampleSubmission_def updateSubmissionStatus_def
      validateStatusTransition_def updateSubmission_def writeData_def Let_def)

text \<open>
  What the transition does at every input: for every stored submission and every target
  status the call succeeds when the write is made, whatever the current status is, and the
  record it returns and persists has the target status and the instant of the call as
  \<open>updatedAt\<close>, which is later than the previous one exactly when the clock reading is.
\<close>

lemma updateSubmissionStatus_any_transition:
  assumes "getSubmission f sid = Some sub"
  shows "fst (updateSubmissionStatus now Written sid st f)
           = Inr (sub\<lparr>status := st, updatedAt := now\<rparr>)
       \<and> getSubmission (snd (updateSubmissionStatus now Written sid st f)) sid
           = Some (sub\<lparr>status := st, updatedAt := now\<rparr>)
       \<and> status (sub\<lparr>status := st, updatedAt := now\<rparr>) = st
       \<and> (updatedAt sub < updatedAt (sub\<lparr>status := st, updatedAt := now\<rparr>))
           = (updatedAt sub < now)"
  using updateSubmissionStatus_persisted [OF assms, of now st] by simp

lemma updateSubmissionStatus_any_transition_example:
  "fst (updateSubmissionStatus 2000 Written ''1'' Rejected
          (Some [sampleSubmission ''1'' Approved 1000 1500]))
     = Inr (sampleSubmission ''1'' Rejected 1000 2000)
   \<and> getSubmission (snd (updateSubmissionStatus 2000 Written ''1'' Rejected
         (Some [sampleSubmission ''1'' Approved 1000 1500]))) ''1''
     = Some (sampleSubmission ''1'' Rejected 1000 2000)
   \<and> updatedAt (sampleSubmission ''1'' Approved 1000 1500)
       < updatedAt (sampleSubmission ''1'' Rejected 1000 2000)"
proof -
  have g: "getSubmission (Some [sampleSubmission ''1'' Approved 1000 1500]) ''1''
             = Some (sampleSubmission ''1'' Approved 1000 1500)"
    by (simp add: getSubmission_def sampleSubmission_def)
  have e: "(sampleSubmission ''1'' Approved 1000 1500)\<lparr>status := Rejected, updatedAt := 2000\<rparr>
             = sampleSubmission ''1'' Rejected 1000 2000"
    by (simp add: sampleSubmission_def)
  have u: "updatedAt (sampleSubmission ''1'' Approved 1000 1500) = 1500"
    by (simp add: sampleSubmission_def)
  from updateSubmissionStatus_any_transition [OF g, of 2000 Rejected] show ?thesis
    by (simp add: e u)
qed

text \<open>
  Claim C6. For every id that no record of the store carries, \<open>updateSubmissionStatus\<close>
  fails with the error \<^verbatim>\<open>Submission with ID <id> not found\<close> and leaves the data file as
  it was, whether or not a write would go through, and \<open>getSubmission\<close> returns the
  absent value \<open>None\<close> (the source's \<^verbatim>\<open>null\<close>); it has no failing outcome at all.
\<close>

theorem updateSubmissionStatus_unknown_id:
  assumes "\<forall>s\<in>set (readData f). id' s \<noteq> sid"
  shows "updateSubmissionStatus now wr sid st f
           = (Inl (Error (''Submission with ID '' @ sid @ '' not found'')), f)
       \<and> getSubmission f sid = None"
proof -
  from assms have "getSubmission f sid = None" by (simp add: getSubmission_None)
  then show ?thesis by (simp add: updateSubmissionStatus_missing)
qed

theorem updateSubmissionStatus_unknown_id_witness:
  "updateSubmissionStatus 2000 Written ''nonexistent'' Approved
      (Some [sampleSubmission ''1'' Pending 1000 1000])
     = (Inl (Error ''Submission with ID nonexistent not found''),
        Some [sampleSubmission ''1'' Pending 1000 1000])
   \<and> getSubmission (Some [sampleSubmission ''1'' Pending 1000 1000]) ''nonexistent'' = None"
proof -
  have h: "\<forall>s\<in>set (readData (Some [sampleSubmission ''1'' Pending 1000 1000])).
             id' s \<noteq> ''nonexistent''"
    by (simp add: sampleSubmission_def)
  from updateSubmissionStatus_unknown_id [OF h, of 2000 Written Approved] show ?thesis
    by simp
qed

section \<open>Creating submissions\<close>

text \<open>
  Claim C4. For every title that trims to the empty string (the empty title included),
  \<open>createSubmission\<close> fails with the error \<^verbatim>\<open>Title is required and cannot be empty\<close> and
  the data file stays as it was. For every content that trims to the empty string it fails
  as well and the data file stays as it was; the error is
  \<^verbatim>\<open>Content is required and cannot be empty\<close> whenever the title has passed its own check,
  which comes first.
\<close>

theorem createSubmission_rejects_blank:
  "(trim rawTitle = [] \<longrightarrow>
      createSubmission dateNow now wr rawTitle rawContent img emb email f
        = (Inl (Error ''Title is required and cannot be empty''), f))
   \<and> (trim rawTitle \<noteq> [] \<and> trim rawContent = [] \<longrightarrow>
      createSubmission dateNow now wr rawTitle rawContent img emb email f
        = (Inl (Error ''Content is required and cannot be empty''), f))
   \<and> (trim rawContent = [] \<longrightarrow>
      snd (createSubmission dateNow now wr rawTitle rawContent img emb email f) = f
      \<and> fst (createSubmission dateNow now wr rawTitle rawContent img emb email f)
          \<in> {Inl (Error ''Title is required and cannot be empty''),
             Inl (Error ''Content is required and cannot be empty'')})"
  by (auto simp: createSubmission_def)

theorem createSubmission_rejects_blank_witness:
  "createSubmission 1000 1000 Written [] ''x'' None None None (Some [])
     = (Inl (Error ''Title is required and cannot be empty''), Some [])
   \<and> createSubmission 1000 1000 Written ''   '' ''x'' None None None (Some [])
     = (Inl (Error ''Title is required and cannot be empty''), Some [])
   \<and> createSubmission 1000 1000 Written ''t'' [] None None None (Some [])
     = (Inl (Error ''Content is required and cannot be empty''), Some [])
   \<and> createSubmission 1000 1000 Written ''t'' ''   '' None None None (Some [])
     = (Inl (Error ''Content is required and cannot be empty''), Some [])"
  using createSubmission_rejects_blank
          [where rawTitle = "[]" and rawContent = "''x''" and f = "Some []"]
        createSubmission_rejects_blank
          [where rawTitle = "''   ''" and rawContent = "''x''" and f = "Some []"]
        createSubmission_rejects_blank
          [where rawTitle = "''t''" and rawContent = "[]" and f = "Some []"]
        createSubmission_rejects_blank
          [where rawTitle = "''t''" and rawContent = "''   ''" and f = "Some []"]
  by (simp add: trim_blank trim_t)

text \<open>
  Claim C5. For every title and content that do not trim to the empty string,
  \<open>createSubmission\<close> succeeds when the write goes through: the record it returns has the
  trimmed title and content, the optional fields as passed, status \<open>Pending\<close> (the function
  takes no status) and the same instant as \<open>createdAt\<close> and \<open>updatedAt\<close>, and that
  record is appended to the store.
\<close>

theorem createSubmission_stores_trimmed_pending:
  assumes "trim rawTitle \<noteq> []" and "trim rawContent \<noteq> []"
  shows "createSubmission dateNow now Written rawTitle rawContent img emb email f
     = (Inr \<lparr> id' = toString dateNow, title = trim rawTitle, content = trim rawContent,
              imageReference = img, embeddedImages = emb, writerEmail = email,
              status = Pending, createdAt = now, updatedAt = now \<rparr>,
        Some (readData f @
              [\<lparr> id' = toString dateNow, title = trim rawTitle, content = trim rawContent,
                  imageReference = img, embeddedImages = emb, writerEmail = email,
                  status = Pending, createdAt = now, updatedAt = now \<rparr>]))"
proof -
  from assms have "rawTitle \<noteq> []" "rawContent \<noteq> []" by auto
  with assms show ?thesis
    by (simp add: createSubmission_def saveSubmission_def writeData_def Let_def)
qed

theorem createSubmission_stores_trimmed_pending_witness:
  "createSubmission 1000 1001 Written ''  Title  '' ''  Body  '' None None
      (Some ''writer@example.com'') (Some [])
     = (Inr \<lparr> id' = ''1000'', title = ''Title'', content = ''Body'',
              imageReference = None, embeddedImages = None,
              writerEmail = Some ''writer@example.com'',
              status = Pending, createdAt = 1001, updatedAt = 1001 \<rparr>,
        Some [\<lparr> id' = ''1000'', title = ''Title'', content = ''Body'',
                 imageReference = None, embeddedImages = None,
                 writerEmail = Some ''writer@example.com'',
                 status = Pending, createdAt = 1001, updatedAt = 1001 \<rparr>])"
proof -
  have t: "trim ''  Title  '' \<noteq> []" by (simp add: trim_Title)
  have c: "trim ''  Body  '' \<noteq> []" by (simp add: trim_Body)
  from createSubmission_stores_trimmed_pending
         [OF t c, of 1000 1001 None None "Some ''writer@example.com''" "Some []"]
  show ?thesis by (simp add: trim_Title trim_Body toString_1000)
qed

text \<open>
  Claim C9, at the input where the code departs from it. The id is the decimal rendering
  of \<^verbatim>\<open>Date.now()\<close> and nothing else. Two calls of \<open>createSubmission\<close>, one after the
  other on the same store, both within millisecond 1000, both succeed and return records
  with the same id \<open>''1000''\<close>.
\<close>

theorem createSubmission_same_millisecond_same_id:
  "createSubmission 1000 1000 Written ''Title 1'' ''Content 1'' None None None (Some [])
     = (Inr \<lparr> id' = ''1000'', title = ''Title 1'', content = ''Content 1'',
              imageReference = None, embeddedImages = None, writerEmail = None,
              status = Pending, createdAt = 1000, updatedAt = 1000 \<rparr>,
        Some [\<lparr> id' = ''1000'', title = ''Title 1'', content = ''Content 1'',
                 imageReference = None, embeddedImages = None, writerEmail = None,
                 status = Pending, createdAt = 1000, updatedAt = 1000 \<rparr>])
   \<and> fst (createSubmission 1000 1000 Written ''Title 2'' ''Content 2'' None None None
        (Some [\<lparr> id' = ''1000'', title = ''Title 1'', content = ''Content 1'',
                 imageReference = None, embeddedImages = None, writerEmail = None,
                 status = Pending, createdAt = 1000, updatedAt = 1000 \<rparr>]))
     = Inr \<lparr> id' = ''1000'', title = ''Title 2'', content = ''Content 2'',
             imageReference = None, embeddedImages = None, writerEmail = None,
             status = Pending, createdAt = 1000, updatedAt = 1000 \<rparr>"
  by (simp add: createSubmission_def saveSubmission_def writeData_def Let_def trim_def
      isWhiteSpace_def toString_1000)

section \<open>Saving under an id that is taken\<close>

text \<open>
  Claim C10. \<open>saveSubmission\<close> does not look at the ids in the store. For every record
  whose id some stored record already carries, saving it (the write going through)
  succeeds and appends the record at the end of the store, so that the total count grows
  by one, and \<open>getSubmission\<close> on that id still returns the record it returned before,
  the first one with that id in insertion order.
\<close>

theorem saveSubmission_duplicate_id_appends:
  assumes "getSubmission f (id' submission) = Some old"
  shows "saveSubmission Written submission f = (Inr (), Some (readData f @ [submission]))
       \<and> total' (getSubmissionCounts (snd (saveSubmission Written submission f)))
           = total' (getSubmissionCounts f) + 1
       \<and> getSubmission (snd (saveSubmission Written submission f)) (id' submission) = Some old"
  using assms
  by (simp add: saveSubmission_def writeData_def getSubmissionCounts_def getSubmission_def
      find_append_first Let_def)

theorem saveSubmission_duplicate_id_appends_witness:
  "saveSubmission Written (sampleSubmission ''1'' Approved 2000 2000)
      (Some [sampleSubmission ''1'' Pending 1000 1000])
     = (Inr (), Some [sampleSubmission ''1'' Pending 1000 1000,
                      sampleSubmission ''1'' Approved 2000 2000])
   \<and> total' (getSubmissionCounts (Some [sampleSubmission ''1'' Pending 1000 1000,
                                          sampleSubmission ''1'' Approved 2000 2000])) = 2
   \<and> getSubmission (Some [sampleSubmission ''1'' Pending 1000 1000,
                            sampleSubmission ''1'' Approved 2000 2000]) ''1''
     = Some (sampleSubmission ''1'' Pending 1000 1000)"
proof -
  have h: "getSubmission (Some [sampleSubmission ''1'' Pending 1000 1000])
             (id' (sampleSubmission ''1'' Approved 2000 2000))
           = Some (sampleSubmission ''1'' Pending 1000 1000)"
    by (simp add: getSubmission_def sampleSubmission_def)
  have t: "total' (getSubmissionCounts (Some [sampleSubmission ''1'' Pending 1000 1000])) = 1"
    by (simp add: getSubmissionCounts_def)
  have i: "id' (sampleSubmission ''1'' Approved 2000 2000) = ''1''"
    by (simp add: sampleSubmission_def)
  from saveSubmission_duplicate_id_appends [OF h] show ?thesis
    by (simp add: t i saveSubmission_def writeData_def getSubmissionCounts_def)
qed

section \<open>What the operations leave in the store\<close>

lemma readData_createSubmission:
  "s \<in> set (readData (snd (createSubmission dateNow now wr t c i e w f))) \<Longrightarrow>
   s \<in> set (readData f) \<or> (createdAt s = now \<and> updatedAt s = now)"
  by (auto simp: createSubmission_def saveSubmission_def writeData_def Let_def
      split: if_splits writeOutcome.splits)

lemma readData_updateSubmission:
  "s \<in> set (readData (snd (updateSubmission wr submission f))) \<Longrightarrow>
   s \<in> set (readData f) \<or> s = submission"
proof (cases "findIndex (\<lambda>s. id' s = id' submission) (readData f)")
  case None
  assume "s \<in> set (readData (snd (updateSubmission wr submission f)))"
  with None show ?thesis by (simp add: updateSubmission_def Let_def)
next
  case (Some i)
  assume "s \<in> set (readData (snd (updateSubmission wr submission f)))"
  with Some have "s \<in> set (readData f) \<or> s \<in> set ((readData f)[i := submission])"
    by (auto simp: updateSubmission_def writeData_def Let_def split: writeOutcome.splits)
  moreover have "set ((readData f)[i := submission]) \<subseteq> insert submission (set (readData f))"
    by (rule set_update_subset_insert)
  ultimately show ?thesis by auto
qed

lemma snd_updateSubmissionStatus:
  "getSubmission f sid = Some sub \<Longrightarrow>
   snd (updateSubmissionStatus now wr sid st f)
     = snd (updateSubmission wr (sub\<lparr>status := st, updatedAt := now\<rparr>) f)"
  by (simp add: updateSubmissionStatus_def validateStatusTransition_def Let_def
      split: prod.splits sum.splits)

lemma readData_updateSubmissionStatus:
  assumes "s \<in> set (readData (snd (updateSubmissionStatus now wr sid st f)))"
  shows "s \<in> set (readData f)
       \<or> (\<exists>s0\<in>set (readData f). createdAt s = createdAt s0 \<and> updatedAt s = now)"
proof (cases "getSubmission f sid")
  case None
  with assms show ?thesis by (simp add: updateSubmissionStatus_missing)
next
  case (Some sub)
  with assms have "s \<in> set (readData f) \<or> s = sub\<lparr>status := st, updatedAt := now\<rparr>"
    by (simp add: snd_updateSubmissionStatus readData_updateSubmission)
  moreover have "sub \<in> set (readData f)" using Some by (rule getSubmission_mem)
  ultimately show ?thesis by auto
qed

lemma readData_deleteSubmission:
  "s \<in> set (readData (snd (deleteSubmission wr sid f))) \<Longrightarrow> s \<in> set (readData f)"
  by (auto simp: deleteSubmission_def writeData_def Let_def
      split: if_splits writeOutcome.splits)

lemma perform_keeps_order:
  assumes inv: "\<forall>s\<in>set (readData f). createdAt s \<le> updatedAt s
                  \<and> (\<forall>n\<in>set (clockReadings (op # ops)). createdAt s \<le> n)"
    and clock: "sorted (clockReadings (op # ops))"
    and mem: "s \<in> set (readData (perform op f))"
  shows "createdAt s \<le> updatedAt s \<and> (\<forall>n\<in>set (clockReadings ops). createdAt s \<le> n)"
proof (cases op)
  case (CreateSubmission dateNow now wr t c i e w)
  with mem have "s \<in> set (readData (snd (createSubmission dateNow now wr t c i e w f)))"
    by simp
  then have "s \<in> set (readData f) \<or> (createdAt s = now \<and> updatedAt s = now)"
    by (rule readData_createSubmission)
  with inv clock CreateSubmission show ?thesis by auto
next
  case (UpdateSubmissionStatus now wr sid st)
  with mem have "s \<in> set (readData (snd (updateSubmissionStatus now wr sid st f)))"
    by simp
  then have "s \<in> set (readData f)
       \<or> (\<exists>s0\<in>set (readData f). createdAt s = createdAt s0 \<and> updatedAt s = now)"
    by (rule readData_updateSubmissionStatus)
  with inv clock UpdateSubmissionStatus show ?thesis by auto
next
  case (ApproveSubmission now wr sid)
  with mem have "s \<in> set (readData (snd (updateSubmissionStatus now wr sid Approved f)))"
    by (simp add: approveSubmission_def)
  then have "s \<in> set (readData f)
       \<or> (\<exists>s0\<in>set (readData f). createdAt s = createdAt s0 \<and> updatedAt s = now)"
    by (rule readData_updateSubmissionStatus)
  with inv clock ApproveSubmission show ?thesis by auto
next
  case (RejectSubmission now wr sid)
  with mem have "s \<in> set (readData (snd (updateSubmissionStatus now wr sid Rejected f)))"
    by (simp add: rejectSubmission_def)
  then have "s \<in> set (readData f)
       \<or> (\<exists>s0\<in>set (readData f). createdAt s = createdAt s0 \<and> updatedAt s = now)"
    by (rule readData_updateSubmissionStatus)
  with inv clock RejectSubmission show ?thesis by auto
next
  case (DeleteSubmission wr sid)
  with mem have "s \<in> set (readData (snd (deleteSubmission wr sid f)))"
    by (simp add: wf_deleteSubmission_def)
  then have "s \<in> set (readData f)"
    by (rule readData_deleteSubmission)
  with inv DeleteSubmission show ?thesis by auto
qed

lemma sorted_clockReadings_tail:
  "sorted (clockReadings (op # ops)) \<Longrightarrow> sorted (clockReadings ops)"
  by (cases op) simp_all

lemma run_keeps_order:
  "sorted (clockReadings ops) \<Longrightarrow>
   \<forall>s\<in>set (readData f). createdAt s \<le> updatedAt s
      \<and> (\<forall>n\<in>set (clockReadings ops). createdAt s \<le> n) \<Longrightarrow>
   \<forall>s\<in>set (readData (run ops f)). createdAt s \<le> updatedAt s"
proof (induction ops arbitrary: f)
  case Nil
  then show ?case by (simp add: run_def)
next
  case (Cons op ops)
  have "\<forall>s\<in>set (readData (perform op f)). createdAt s \<le> updatedAt s
          \<and> (\<forall>n\<in>set (clockReadings ops). createdAt s \<le> n)"
    using perform_keeps_order [OF Cons.prems(2) Cons.prems(1)] by blast
  moreover have "sorted (clockReadings ops)"
    using Cons.prems(1) by (rule sorted_clockReadings_tail)
  ultimately have "\<forall>s\<in>set (readData (run ops (perform op f))). createdAt s \<le> updatedAt s"
    by (rule Cons.IH [rotated])
  then show ?case by (simp add: run_def)
qed

lemma run_example:
  "run [CreateSubmission 1000 1000 Written ''Test'' ''Content'' None None None,
        ApproveSubmission 2000 Written ''1000''] (Some [])
   = Some [sampleSubmission ''1000'' Approved 1000 2000]"
  by (simp add: run_def createSubmission_def saveSubmission_def writeData_def Let_def
      trim_Test trim_Content toString_1000 approveSubmission_def updateSubmissionStatus_def
      getSubmission_def validateStatusTransition_def updateSubmission_def sampleSubmission_def)

lemma run_backwards_example:
  "run [CreateSubmission 2000 2000 Written ''Test'' ''Content'' None None None,
        ApproveSubmission 1000 Written ''2000''] (Some [])
   = Some [sampleSubmission ''2000'' Approved 2000 1000]"
  by (simp add: run_def createSubmission_def saveSubmission_def writeData_def Let_def
      trim_Test trim_Content toString_2000 approveSubmission_def updateSubmissionStatus_def
      getSubmission_def validateStatusTransition_def updateSubmission_def sampleSubmission_def)

section \<open>The invariant of the records\<close>

text \<open>
  Claim C3, as the code has it. Every record has one of the three statuses, with no
  condition. \<open>createdAt \<le> updatedAt\<close> holds for every record in the store after a run of
  \<open>createSubmission\<close>, \<open>updateSubmissionStatus\<close>, \<open>approveSubmission\<close>,
  \<open>rejectSubmission\<close> and \<open>deleteSubmission\<close> calls, each succeeding or failing with
  any outcome of its write, provided that the clock does not run backwards from one call to
  the next and that the run starts on a store whose records satisfy
  \<open>createdAt \<le> updatedAt\<close> and were created no later than the clock readings of the run
  (the empty store is one). A run of a single call gives, under the same proviso, that each
  operation preserves the invariant. \<open>updatedAt\<close> is overwritten with the clock reading
  of the call and is not compared with \<open>createdAt\<close>.
\<close>

theorem run_preserves_invariant:
  "status s \<in> {Pending, Approved, Rejected}
   \<and> (sorted (clockReadings ops)
        \<and> (\<forall>r\<in>set (readData f). createdAt r \<le> updatedAt r
              \<and> (\<forall>n\<in>set (clockReadings ops). createdAt r \<le> n))
        \<and> s \<in> set (readData (run ops f))
      \<longrightarrow> createdAt s \<le> updatedAt s)"
proof (intro conjI impI)
  show "status s \<in> {Pending, Approved, Rejected}"
    by (cases "status s") simp_all
next
  assume a: "sorted (clockReadings ops)
        \<and> (\<forall>r\<in>set (readData f). createdAt r \<le> updatedAt r
              \<and> (\<forall>n\<in>set (clockReadings ops). createdAt r \<le> n))
        \<and> s \<in> set (readData (run ops f))"
  then have "\<forall>r\<in>set (readData (run ops f)). createdAt r \<le> updatedAt r"
    by (intro run_keeps_order) simp_all
  with a show "createdAt s \<le> updatedAt s" by blast
qed

text \<open>
  On the empty store a submission is created at instant 2000 and approved at a clock
  reading of 1000: both calls succeed and the stored record has \<open>createdAt\<close> 2000 and
  \<open>updatedAt\<close> 1000.
\<close>

theorem run_clock_backwards_counterexample:
  "run [CreateSubmission 2000 2000 Written ''Test'' ''Content'' None None None,
        ApproveSubmission 1000 Written ''2000''] (Some [])
     = Some [sampleSubmission ''2000'' Approved 2000 1000]
   \<and> \<not> createdAt (sampleSubmission ''2000'' Approved 2000 1000)
         \<le> updatedAt (sampleSubmission ''2000'' Approved 2000 1000)"
  by (simp add: run_backwards_example) (simp add: sampleSubmission_def)

theorem run_preserves_invariant_witness:
  "run [CreateSubmission 1000 1000 Written ''Test'' ''Content'' None None None,
        ApproveSubmission 2000 Written ''1000''] (Some [])
     = Some [sampleSubmission ''1000'' Approved 1000 2000]
   \<and> status (sampleSubmission ''1000'' Approved 1000 2000) \<in> {Pending, Approved, Rejected}
   \<and> createdAt (sampleSubmission ''1000'' Approved 1000 2000)
       \<le> updatedAt (sampleSubmission ''1000'' Approved 1000 2000)"
proof -
  have c: "sorted (clockReadings
             [CreateSubmission 1000 1000 Written ''Test'' ''Content'' None None None,
              ApproveSubmission 2000 Written ''1000''])"
    by simp
  have i: "\<forall>r\<in>set (readData (Some [])). createdAt r \<le> updatedAt r
             \<and> (\<forall>n\<in>set (clockReadings
                     [CreateSubmission 1000 1000 Written ''Test'' ''Content'' None None None,
                      ApproveSubmission 2000 Written ''1000'']). createdAt r \<le> n)"
    by simp
  have m: "sampleSubmission ''1000'' Approved 1000 2000
             \<in> set (readData (run
                 [CreateSubmission 1000 1000 Written ''Test'' ''Content'' None None None,
                  ApproveSubmission 2000 Written ''1000''] (Some [])))"
    by (simp add: run_example)
  from run_preserves_invariant
         [of "sampleSubmission ''1000'' Approved 1000 2000"
             "[CreateSubmission 1000 1000 Written ''Test'' ''Content'' None None None,
               ApproveSubmission 2000 Written ''1000'']" "Some []"] c i m
  show ?thesis by (simp add: run_example)
qed

end
